theory Spec2Isabelle
  imports Complex_Main
begin

section \<open>The JavaScript processor \<open>CsvProcessorJS\<close> of \<open>www/src/App.jsx\<close>\<close>

text \<open>
  The development embeds the class \<open>CsvProcessorJS\<close> (lines 23 to 97 of
  \<open>www/src/App.jsx\<close>): its constructor, \<open>get_error_summary\<close>, \<open>apply_bulk_fix\<close>,
  \<open>generate_split_export\<close> and \<open>count_total_errors\<close>.

  Conventions of the embedding.
  \<^item> A JavaScript string is a \<^typ>\<open>string\<close>, one \<^typ>\<open>char\<close> per code unit; only code
    units up to 255 are represented.
  \<^item> The objects used as dictionaries (\<open>ruleMap\<close>, \<open>stats\<close>, \<open>examples\<close>) are association
    lists of their own properties, in insertion order (which is the order in which
    JavaScript enumerates them, but for integer-like names, which it puts first),
    written with \<open>obj_set\<close>. A read
    \<open>ob[k]\<close> follows the prototype chain: \<open>obj_lookup\<close> tells an own property from one
    inherited from \<open>Object.prototype\<close> (\<open>constructor\<close>, \<open>toString\<close>, \<open>__proto__\<close> and the
    like) and from an absent one.
  \<^item> A call returns a value, throws, or lies outside the embedding: the type
    \<open>completion\<close>. The one case outside is \<open>get_error_summary\<close> on a processor whose rule
    specification has an entry for the column \<open>__proto__\<close>: that assignment replaces the
    prototype of \<open>ruleMap\<close>, and a violation in such a column writes on \<open>Object.prototype\<close>
    itself, which is global state of the page.
  \<^item> \<open>rulesJson\<close> is taken after \<open>JSON.parse\<close>, as the array of \<open>{column, rules}\<close> entries
    of the wire format; each rule object carries the fields the code reads.
  \<^item> A Number is \<open>NaN\<close>, an infinity, or a finite binary64 value carried as the rational
    it denotes; \<open>parseFloat\<close> rounds the value of the decimal literal to the nearest
    binary64 value, ties to even. The bounds \<open>min\<close> and \<open>max\<close> of a rule are finite
    Numbers, carried as rationals too.
  \<^item> Mutation of \<open>this.records\<close> is explicit state passing: \<open>apply_bulk_fix\<close> returns the
    updated processor together with its result.
\<close>

subsection \<open>Strings: \<open>trim\<close>, \<open>split\<close>, \<open>join\<close>, \<open>indexOf\<close>\<close>

text \<open>White space and line terminators stripped by \<open>String.prototype.trim\<close> and skipped by
  \<open>parseFloat\<close>: TAB, LF, VT, FF, CR, SP and NBSP. The other white space of Unicode lies
  above code unit 255.\<close>

definition is_space :: "char \<Rightarrow> bool" where
  "is_space c = (c \<in> set [CHR 0x09, CHR 0x0A, CHR 0x0B, CHR 0x0C, CHR 0x0D, CHR 0x20, CHR 0xA0])"

definition trimStart :: "string \<Rightarrow> string" where
  "trimStart s = dropWhile is_space s"

definition trim :: "string \<Rightarrow> string" where
  "trim s = rev (dropWhile is_space (rev (dropWhile is_space s)))"

text \<open>\<open>s.split(d)\<close> for a one-character separator: the pieces between the occurrences of
  \<open>d\<close>; the empty string gives one empty piece.\<close>

fun split :: "char \<Rightarrow> string \<Rightarrow> string list" where
  "split d [] = [[]]"
| "split d (c # cs) =
     (let r = split d cs in
      if c = d then [] # r else (c # hd r) # tl r)"

text \<open>\<open>xs.join(sep)\<close> on an array of strings.\<close>

fun join :: "string \<Rightarrow> string list \<Rightarrow> string" where
  "join sep [] = []"
| "join sep [x] = x"
| "join sep (x # y # ys) = x @ sep @ join sep (y # ys)"

text \<open>\<open>xs.indexOf(x)\<close>: the first index holding \<open>x\<close>; \<open>None\<close> stands for \<open>-1\<close>.\<close>

fun indexOf :: "'a list \<Rightarrow> 'a \<Rightarrow> nat option" where
  "indexOf [] x = None"
| "indexOf (y # ys) x =
     (if y = x then Some 0 else (case indexOf ys x of None \<Rightarrow> None | Some i \<Rightarrow> Some (Suc i)))"

definition nl :: char where
  "nl = CHR 0x0A"

subsection \<open>Numbers: \<open>parseFloat\<close> and comparison\<close>

datatype jsnum = NaN | Finite rat | PosInfinity | NegInfinity

definition is_digit :: "char \<Rightarrow> bool" where
  "is_digit c = (c \<in> set ''0123456789'')"

definition digit_value :: "char \<Rightarrow> int" where
  "digit_value c = of_char c - 48"

definition digits_value :: "string \<Rightarrow> int" where
  "digits_value ds = foldl (\<lambda>a c. 10 * a + digit_value c) 0 ds"

definition pow10 :: "int \<Rightarrow> rat" where
  "pow10 e = (if 0 \<le> e then of_int (10 ^ nat e) else 1 / of_int (10 ^ nat (- e)))"

text \<open>The exponent denoted by an \<open>ExponentPart\<close> (\<open>e\<close> or \<open>E\<close>, an optional sign, at least
  one digit) at the start of the string, and 0 when the string does not start with one.\<close>

definition exponent_part :: "string \<Rightarrow> int" where
  "exponent_part s =
     (case s of
        [] \<Rightarrow> 0
      | e # r \<Rightarrow>
          if e = CHR ''e'' \<or> e = CHR ''E'' then
            (case r of
               [] \<Rightarrow> 0
             | g # r' \<Rightarrow>
                 if g = CHR ''+'' \<and> takeWhile is_digit r' \<noteq> [] then
                   digits_value (takeWhile is_digit r')
                 else if g = CHR ''-'' \<and> takeWhile is_digit r' \<noteq> [] then
                   - digits_value (takeWhile is_digit r')
                 else if is_digit g then digits_value (takeWhile is_digit r)
                 else 0)
          else 0)"

text \<open>Rounding to binary64. \<open>bitlen n\<close> is the number of binary digits of \<open>n\<close>, and
  \<open>floor_log2 q\<close>, for a positive \<open>q\<close>, is the exponent \<open>e\<close> with \<open>2 ^ e \<le> q < 2 ^ (e + 1)\<close>.
  \<open>to_binary64 q\<close> is the Number value for a mathematical value \<open>q \<ge> 0\<close>: the nearest
  multiple \<open>m * ulp\<close> of the unit in the last place of the binade of \<open>q\<close> (of the subnormal
  binade below \<open>2 ^ -1022\<close>), ties to the even multiple, and \<open>Infinity\<close> when that multiple
  reaches \<open>2 ^ 1024\<close>, which is the case from the exponent 1024 on and, at the exponent
  1023, when \<open>m\<close> has been rounded up to \<open>2 ^ 53 = 9007199254740992\<close>.\<close>

function bitlen :: "int \<Rightarrow> int" where
  "bitlen n = (if n \<le> 0 then 0 else 1 + bitlen (n div 2))"
  by pat_completeness auto
termination
  by (relation "measure nat") auto

declare bitlen.simps [simp del]

definition pow2 :: "int \<Rightarrow> rat" where
  "pow2 k = (if 0 \<le> k then of_int (2 ^ nat k) else 1 / of_int (2 ^ nat (- k)))"

definition floor_log2 :: "rat \<Rightarrow> int" where
  "floor_log2 q =
     (let k = bitlen (fst (quotient_of q)) - bitlen (snd (quotient_of q))
      in if pow2 k \<le> q then k else k - 1)"

definition round_half_even :: "rat \<Rightarrow> int" where
  "round_half_even x =
     (let f = \<lfloor>x\<rfloor>; d = x - of_int f in
      if d < 1 / 2 then f
      else if 1 / 2 < d then f + 1
      else if even f then f else f + 1)"

definition to_binary64 :: "rat \<Rightarrow> jsnum" where
  "to_binary64 q =
     (if q \<le> 0 then Finite 0
      else
        let e = floor_log2 q in
        if 1024 \<le> e then PosInfinity
        else
          let ulp = pow2 (max e (- 1022) - 52);
              m = round_half_even (q / ulp)
          in if e = 1023 \<and> m = 9007199254740992 then PosInfinity
             else Finite (of_int m * ulp))"

text \<open>The value of the longest prefix that is a \<open>StrUnsignedDecimalLiteral\<close>:
  \<open>Infinity\<close>, digits with an optional fraction and exponent, or a dot followed by digits
  and an optional exponent; \<open>NaN\<close> when there is no such prefix.\<close>

definition unsigned_literal :: "string \<Rightarrow> jsnum" where
  "unsigned_literal s =
     (if take 8 s = ''Infinity'' then PosInfinity
      else
        let ip = takeWhile is_digit s; r = dropWhile is_digit s in
        if r \<noteq> [] \<and> hd r = CHR ''.'' then
          (let fp = takeWhile is_digit (tl r); r' = dropWhile is_digit (tl r) in
           if ip = [] \<and> fp = [] then NaN
           else to_binary64 (of_int (digits_value (ip @ fp))
                               * pow10 (exponent_part r' - int (length fp))))
        else if ip = [] then NaN
        else to_binary64 (of_int (digits_value ip) * pow10 (exponent_part r)))"

definition negate :: "jsnum \<Rightarrow> jsnum" where
  "negate n =
     (case n of NaN \<Rightarrow> NaN | Finite q \<Rightarrow> Finite (- q)
      | PosInfinity \<Rightarrow> NegInfinity | NegInfinity \<Rightarrow> PosInfinity)"

text \<open>\<open>parseFloat(s)\<close>: leading white space is skipped, then an optional sign, then the
  longest numeric prefix; whatever follows the prefix is ignored.\<close>

definition parseFloat :: "string \<Rightarrow> jsnum" where
  "parseFloat s =
     (let t = trimStart s in
      if t \<noteq> [] \<and> hd t = CHR ''+'' then unsigned_literal (tl t)
      else if t \<noteq> [] \<and> hd t = CHR ''-'' then negate (unsigned_literal (tl t))
      else unsigned_literal t)"

definition isNaN :: "jsnum \<Rightarrow> bool" where
  "isNaN n = (n = NaN)"

text \<open>\<open>n < b\<close> and \<open>n > b\<close> for a finite bound \<open>b\<close>; both are false on \<open>NaN\<close>.\<close>

definition num_less :: "jsnum \<Rightarrow> rat \<Rightarrow> bool" where
  "num_less n b =
     (case n of NaN \<Rightarrow> False | Finite q \<Rightarrow> q < b | PosInfinity \<Rightarrow> False | NegInfinity \<Rightarrow> True)"

definition num_greater :: "jsnum \<Rightarrow> rat \<Rightarrow> bool" where
  "num_greater n b =
     (case n of NaN \<Rightarrow> False | Finite q \<Rightarrow> b < q | PosInfinity \<Rightarrow> True | NegInfinity \<Rightarrow> False)"

subsection \<open>Objects as dictionaries, and how a call completes\<close>

datatype js_error = TypeError

datatype 'a completion = Return 'a | Throw js_error | Unmodelled

type_synonym 'v obj = "(string \<times> 'v) list"

text \<open>The own property \<open>k\<close> of an object, \<open>None\<close> when it has none.\<close>

definition obj_get :: "'v obj \<Rightarrow> string \<Rightarrow> 'v option" where
  "obj_get ob k = map_of ob k"

text \<open>The names of the properties of \<open>Object.prototype\<close>. Each is a function, but for
  \<open>__proto__\<close>, which reads as the prototype object: all are truthy, and none has a
  \<open>forEach\<close>.\<close>

definition object_prototype_names :: "string list" where
  "object_prototype_names =
     [''constructor'', ''__defineGetter__'', ''__defineSetter__'', ''hasOwnProperty'',
      ''__lookupGetter__'', ''__lookupSetter__'', ''isPrototypeOf'', ''propertyIsEnumerable'',
      ''toString'', ''valueOf'', ''__proto__'', ''toLocaleString'']"

text \<open>The read \<open>ob[k]\<close> on an object literal with the own properties \<open>ob\<close>.\<close>

datatype 'v property = Absent | Own 'v | Inherited

definition obj_lookup :: "'v obj \<Rightarrow> string \<Rightarrow> 'v property" where
  "obj_lookup ob k =
     (case map_of ob k of
        Some v \<Rightarrow> Own v
      | None \<Rightarrow> if k \<in> set object_prototype_names then Inherited else Absent)"

text \<open>\<open>xs.forEach(f)\<close> for a callback that may throw: the first throw ends the loop.\<close>

fun for_each :: "('a \<Rightarrow> 's \<Rightarrow> 's completion) \<Rightarrow> 'a list \<Rightarrow> 's \<Rightarrow> 's completion" where
  "for_each f [] s = Return s"
| "for_each f (x # xs) s =
     (case f x s of
        Return s' \<Rightarrow> for_each f xs s'
      | Throw e \<Rightarrow> Throw e
      | Unmodelled \<Rightarrow> Unmodelled)"

fun obj_set :: "'v obj \<Rightarrow> string \<Rightarrow> 'v \<Rightarrow> 'v obj" where
  "obj_set [] k v = [(k, v)]"
| "obj_set ((k', v') # ob) k v =
     (if k' = k then (k, v) # ob else (k', v') # obj_set ob k v)"

subsection \<open>Rules, the processor and its constructor\<close>

text \<open>A rule object of the wire format: its \<open>type\<close> and the type-specific fields \<open>min\<close>,
  \<open>max\<close> (\<open>None\<close> is \<open>undefined\<close>), \<open>options\<close> (read for a rule of type \<open>oneof\<close> only, where
  the format requires it) and \<open>pattern\<close>.\<close>

record rule =
  rule_type :: string
  rule_min :: "rat option"
  rule_max :: "rat option"
  rule_options :: "string list"
  rule_pattern :: "string option"

text \<open>An entry \<open>{column, rules}\<close> of the rule specification is a pair.\<close>

type_synonym rule_entry = "string \<times> rule list"

text \<open>The fields of the processor. \<open>ruleMap\<close> holds the own properties of \<open>this.ruleMap\<close>, and
  \<open>ruleMap_proto\<close> its prototype: \<open>None\<close> for \<open>Object.prototype\<close>, and the array of rules
  that an entry for the column \<open>__proto__\<close> has put in its place.\<close>

record processor =
  headers :: "string list"
  records :: "string list list"
  rules :: "rule_entry list"
  ruleMap :: "rule list obj"
  ruleMap_proto :: "rule list option"

text \<open>The assignment \<open>this.ruleMap[r.column] = r.rules\<close>: it creates or overwrites an own
  property, but for the name \<open>__proto__\<close>, which sets the prototype.\<close>

definition add_rule_entry ::
  "rule_entry \<Rightarrow> rule list obj \<times> rule list option \<Rightarrow> rule list obj \<times> rule list option" where
  "add_rule_entry r m =
     (if fst r = ''__proto__'' then (fst m, Some (snd r))
      else (obj_set (fst m) (fst r) (snd r), snd m))"

text \<open>The constructor. \<open>this.rows\<close> is read here only and is not kept; \<open>split\<close> never
  returns an empty array, so \<open>this.rows[0]\<close> exists.\<close>

definition parse_rows :: "string \<Rightarrow> string list list" where
  "parse_rows csvData = map (split (CHR '','')) (split nl (trim csvData))"

definition constructor :: "string \<Rightarrow> rule_entry list \<Rightarrow> processor" where
  "constructor csvData rulesJson =
     (let rows = parse_rows csvData;
          m = fold add_rule_entry rulesJson ([], None) in
      \<lparr> headers = hd rows,
        records = tl rows,
        rules = rulesJson,
        ruleMap = fst m,
        ruleMap_proto = snd m \<rparr>)"

subsection \<open>\<open>get_error_summary\<close>\<close>

record summary =
  stats :: "(nat obj) obj"
  examples :: "(string obj) obj"
  total_errors :: nat

text \<open>The \<open>if\<close>/\<open>else if\<close> chain that computes \<open>errType\<close> for one rule and one value;
  \<open>None\<close> is \<open>null\<close>. \<open>!val\<close> holds for the empty string only, and \<open>/@/.test(val)\<close> holds
  when \<open>val\<close> contains the character \<open>@\<close>.\<close>

definition check_rule :: "rule \<Rightarrow> string \<Rightarrow> string option" where
  "check_rule rule val =
     (if rule_type rule = ''notempty'' \<and> val = [] then Some ''Required''
      else if rule_type rule = ''number'' then
        (let n = parseFloat val in
         if isNaN n then Some ''Not a Number''
         else if rule_min rule \<noteq> None \<and> num_less n (the (rule_min rule)) then Some ''Min Value''
         else if rule_max rule \<noteq> None \<and> num_greater n (the (rule_max rule)) then Some ''Max Value''
         else None)
      else if rule_type rule = ''email'' \<and> \<not> (CHR ''@'' \<in> set val) then Some ''Invalid Email''
      else if rule_type rule = ''oneof'' \<and> \<not> (val \<in> set (rule_options rule)) then
        Some ''Invalid Option''
      else None)"

text \<open>The statements on \<open>stats\<close> in the body of \<open>if (errType) { ... }\<close>. When
  \<open>stats[colName]\<close> is inherited it is truthy, no own object is created, and the counter is
  written on the inherited function: \<open>stats\<close> itself is unchanged. The names \<open>errType\<close>
  takes are not inherited ones, so the read of the counter is a read of an own property.\<close>

definition count_error :: "string \<Rightarrow> string \<Rightarrow> (nat obj) obj \<Rightarrow> (nat obj) obj" where
  "count_error colName errType st =
     (case obj_lookup st colName of
        Inherited \<Rightarrow> st
      | Absent \<Rightarrow> obj_set st colName (obj_set [] errType (0 + 1))
      | Own ob \<Rightarrow>
          obj_set st colName
            (obj_set ob errType ((case obj_get ob errType of None \<Rightarrow> 0 | Some c \<Rightarrow> c) + 1)))"

text \<open>The statements on \<open>examples\<close>: the example is written when the stored one is
  \<open>undefined\<close> or the empty string. When \<open>examples[colName]\<close> is inherited, it is the function
  that already carries the counter under the name \<open>errType\<close>, so nothing is written.\<close>

definition keep_example :: "string \<Rightarrow> string \<Rightarrow> string \<Rightarrow> (string obj) obj \<Rightarrow> (string obj) obj" where
  "keep_example colName errType val ex =
     (case obj_lookup ex colName of
        Inherited \<Rightarrow> ex
      | Absent \<Rightarrow> obj_set ex colName (obj_set [] errType val)
      | Own ob \<Rightarrow>
          obj_set ex colName
            (case obj_get ob errType of
               None \<Rightarrow> obj_set ob errType val
             | Some e \<Rightarrow> if e = [] then obj_set ob errType val else ob))"

text \<open>The body of \<open>if (errType) { ... }\<close>.\<close>

definition record_error :: "string \<Rightarrow> string \<Rightarrow> string \<Rightarrow> summary \<Rightarrow> summary" where
  "record_error colName errType val s =
     \<lparr> stats = count_error colName errType (stats s),
       examples = keep_example colName errType val (examples s),
       total_errors = total_errors s + 1 \<rparr>"

text \<open>\<open>rules.forEach(rule => ...)\<close> for one cell.\<close>

definition check_rules :: "string \<Rightarrow> string \<Rightarrow> rule list \<Rightarrow> summary \<Rightarrow> summary" where
  "check_rules colName val rs s =
     fold (\<lambda>rule s'. case check_rule rule val of
                        None \<Rightarrow> s'
                      | Some errType \<Rightarrow> record_error colName errType val s') rs s"

text \<open>\<open>this.headers[colIdx]\<close>: out of range it is \<open>undefined\<close>, which as a property key is
  the string \<open>undefined\<close>.\<close>

definition header_at :: "string list \<Rightarrow> nat \<Rightarrow> string" where
  "header_at hs colIdx = (if colIdx < length hs then hs ! colIdx else ''undefined'')"

text \<open>The callback of \<open>row.forEach((val, colIdx) => ...)\<close>. \<open>this.ruleMap[colName]\<close> is the
  array of rules when the name is an own property and \<open>undefined\<close> when it is absent. When
  it is inherited from \<open>Object.prototype\<close> it is truthy and has no \<open>forEach\<close>, so the call
  \<open>rules.forEach(...)\<close> throws a \<open>TypeError\<close>.\<close>

definition check_cell :: "processor \<Rightarrow> string \<times> nat \<Rightarrow> summary \<Rightarrow> summary completion" where
  "check_cell p cell s =
     (let colName = header_at (headers p) (snd cell) in
      case obj_lookup (ruleMap p) colName of
        Absent \<Rightarrow> Return s
      | Own rs \<Rightarrow> Return (check_rules colName (fst cell) rs s)
      | Inherited \<Rightarrow> Throw TypeError)"

definition check_row :: "processor \<Rightarrow> string list \<Rightarrow> summary \<Rightarrow> summary completion" where
  "check_row p row s = for_each (check_cell p) (zip row [0..<length row]) s"

definition get_error_summary :: "processor \<Rightarrow> summary completion" where
  "get_error_summary p =
     (if ruleMap_proto p \<noteq> None then Unmodelled
      else for_each (check_row p) (records p) \<lparr> stats = [], examples = [], total_errors = 0 \<rparr>)"

definition count_total_errors :: "processor \<Rightarrow> nat completion" where
  "count_total_errors p =
     (case get_error_summary p of
        Return s \<Rightarrow> Return (total_errors s)
      | Throw e \<Rightarrow> Throw e
      | Unmodelled \<Rightarrow> Unmodelled)"

subsection \<open>\<open>apply_bulk_fix\<close>\<close>

text \<open>The body of the loop over \<open>this.records\<close>: \<open>row[colIdx] === findVal\<close> is false when
  the row has no field at \<open>colIdx\<close>. \<open>apply_bulk_fix\<close> gives the processor after the call
  and how the call completes; when \<open>count_total_errors\<close> throws, the rows have been
  rewritten already.\<close>

definition fix_row :: "nat \<Rightarrow> string \<Rightarrow> string \<Rightarrow> string list \<Rightarrow> string list" where
  "fix_row colIdx findVal replaceVal row =
     (if colIdx < length row \<and> row ! colIdx = findVal then row[colIdx := replaceVal] else row)"

definition apply_bulk_fix ::
  "processor \<Rightarrow> string \<Rightarrow> string \<Rightarrow> string \<Rightarrow> processor \<times> nat completion" where
  "apply_bulk_fix p colName findVal replaceVal =
     (case indexOf (headers p) colName of
        None \<Rightarrow> (p, count_total_errors p)
      | Some colIdx \<Rightarrow>
          (let p' = p\<lparr> records := map (fix_row colIdx findVal replaceVal) (records p) \<rparr>
           in (p', count_total_errors p')))"

subsection \<open>\<open>generate_split_export\<close>\<close>

text \<open>The arrays \<open>valid\<close> and \<open>invalid\<close> when the function returns, and the two texts.\<close>

definition valid_lines :: "processor \<Rightarrow> string list" where
  "valid_lines p = join '','' (headers p) # map (join '','') (records p)"

definition invalid_lines :: "processor \<Rightarrow> string list" where
  "invalid_lines p = [join '','' (headers p) @ '',Error_Reason'']"

definition generate_split_export :: "processor \<Rightarrow> string \<times> string" where
  "generate_split_export p = (join [nl] (valid_lines p), join [nl] (invalid_lines p))"

subsection \<open>Rule objects and tables used in the statements\<close>

text \<open>The rule objects \<open>{type: 'notempty'}\<close>, \<open>{type: 'number', min, max}\<close>,
  \<open>{type: 'email'}\<close>, \<open>{type: 'oneof', options}\<close> and \<open>{type: 'regex', pattern}\<close> that the
  rule builder of the application creates, and the constant \<open>SAMPLE_RULES\<close> (lines 15 to
  20).\<close>

definition rule_notempty :: rule where
  "rule_notempty = \<lparr> rule_type = ''notempty'', rule_min = None, rule_max = None,
                      rule_options = [], rule_pattern = None \<rparr>"

definition rule_number :: "rat option \<Rightarrow> rat option \<Rightarrow> rule" where
  "rule_number mn mx = \<lparr> rule_type = ''number'', rule_min = mn, rule_max = mx,
                         rule_options = [], rule_pattern = None \<rparr>"

definition rule_email :: rule where
  "rule_email = \<lparr> rule_type = ''email'', rule_min = None, rule_max = None,
                   rule_options = [], rule_pattern = None \<rparr>"

definition rule_oneof :: "string list \<Rightarrow> rule" where
  "rule_oneof opts = \<lparr> rule_type = ''oneof'', rule_min = None, rule_max = None,
                        rule_options = opts, rule_pattern = None \<rparr>"

definition rule_regex :: "string \<Rightarrow> rule" where
  "rule_regex pat = \<lparr> rule_type = ''regex'', rule_min = None, rule_max = None,
                       rule_options = [], rule_pattern = Some pat \<rparr>"

definition SAMPLE_RULES :: "rule_entry list" where
  "SAMPLE_RULES =
     [(''name'', [rule_notempty]),
      (''age'', [rule_notempty, rule_number (Some 18) (Some 100)]),
      (''email'', [rule_email]),
      (''role'', [rule_oneof [''admin'', ''user'', ''guest'']])]"

text \<open>The sum of all counts of a \<open>stats\<close> object.\<close>

definition stats_sum :: "(nat obj) obj \<Rightarrow> nat" where
  "stats_sum st = sum_list (map (\<lambda>col. sum_list (map snd (snd col))) st)"

text \<open>The texts of the tables the concrete statements are about, one line per row.\<close>

definition aggregation_table :: string where
  "aggregation_table =
     join [nl] [''name,age,email,role'', '',abc,,x'', ''Bob,24,bob@example.com,user'']"

definition blank_age_table :: string where
  "blank_age_table = join [nl] [''name,age'', ''Bob,'', ''Eve,abc'']"

definition bad_age_table :: string where
  "bad_age_table = join [nl] [''name,age'', ''Bob,abc'']"

definition blank_name_table :: string where
  "blank_name_table = join [nl] [''name,age'', '' ,5'']"

definition code_table :: string where
  "code_table = join [nl] [''code'', ''123'']"

definition role_table :: string where
  "role_table = join [nl] [''name,role'', ''Ann,Admin'', ''Bob,user'']"

definition empty_age_table :: string where
  "empty_age_table = join [nl] [''name,age'', ''Bob,'']"

definition inherited_header_table :: string where
  "inherited_header_table = join [nl] [''toString,b'', ''1,2'']"

text \<open>What a call has returned, \<open>None\<close> when it has not returned, and the own property
  \<open>summary.stats[colName]\<close> of a returned summary.\<close>

definition returned :: "'a completion \<Rightarrow> 'a option" where
  "returned r = (case r of Return x \<Rightarrow> Some x | Throw e \<Rightarrow> None | Unmodelled \<Rightarrow> None)"

definition stats_entry :: "summary completion \<Rightarrow> string \<Rightarrow> nat obj option" where
  "stats_entry r colName =
     (case r of Return s \<Rightarrow> obj_get (stats s) colName | Throw e \<Rightarrow> None | Unmodelled \<Rightarrow> None)"

text \<open>\<open>summary.examples[colName][errType]\<close>, read as own properties, with \<open>None\<close> for \<open>undefined\<close>.\<close>

definition example_of :: "summary \<Rightarrow> string \<Rightarrow> string \<Rightarrow> string option" where
  "example_of s colName errType =
     (case obj_get (examples s) colName of None \<Rightarrow> None | Some ex \<Rightarrow> obj_get ex errType)"

text \<open>Whether a string starts with a \<open>StrUnsignedDecimalLiteral\<close>, and whether
  \<open>parseFloat\<close> finds a number at the start of a string: after the leading white space
  and one optional sign come \<open>Infinity\<close>, a digit, or a dot and a digit.\<close>

definition starts_unsigned :: "string \<Rightarrow> bool" where
  "starts_unsigned s =
     (take 8 s = ''Infinity'' \<or>
      (case s of
         [] \<Rightarrow> False
       | c # cs \<Rightarrow>
           is_digit c \<or> (c = CHR ''.'' \<and> (case cs of [] \<Rightarrow> False | c' # _ \<Rightarrow> is_digit c'))))"

definition numeric_prefix :: "string \<Rightarrow> bool" where
  "numeric_prefix s =
     (case trimStart s of
        [] \<Rightarrow> False
      | c # cs \<Rightarrow> if c = CHR ''+'' \<or> c = CHR ''-'' then starts_unsigned cs
                  else starts_unsigned (c # cs))"

section \<open>Properties\<close>

subsection \<open>Splitting, joining and trimming\<close>

lemma split_not_Nil: "split d s \<noteq> []"
  by (induction s) (simp_all add: Let_def)

lemma join_split: "join [d] (split d s) = s"
proof (induction s)
  case Nil
  show ?case by simp
next
  case (Cons c cs)
  obtain y ys where r: "split d cs = y # ys"
    using split_not_Nil [of d cs] by (cases "split d cs") auto
  show ?case
  proof (cases "c = d")
    case True
    with Cons r show ?thesis by simp
  next
    case False
    with Cons r show ?thesis by (cases ys) simp_all
  qed
qed

lemma dropWhile_rev_strip:
  assumes "dropWhile P t = t"
  shows "dropWhile P (rev (dropWhile P (rev t))) = rev (dropWhile P (rev t))"
proof (cases t)
  case Nil
  then show ?thesis by simp
next
  case (Cons x xs)
  have nx: "\<not> P x"
  proof
    assume "P x"
    with assms Cons have "dropWhile P xs = x # xs" by simp
    then have "length (dropWhile P xs) = Suc (length xs)" by simp
    moreover have "length (dropWhile P xs) \<le> length xs" by (rule length_dropWhile_le)
    ultimately show False by simp
  qed
  have "dropWhile P (rev xs @ [x]) = dropWhile P (rev xs) @ [x] \<or> dropWhile P (rev xs @ [x]) = [x]"
    using nx by (simp add: dropWhile_append)
  then show ?thesis using nx Cons by (auto simp: dropWhile_append)
qed

lemma trim_trim: "trim (trim s) = trim s"
proof -
  let ?t = "dropWhile is_space s"
  have a: "dropWhile is_space ?t = ?t" by simp
  have b: "dropWhile is_space (rev (dropWhile is_space (rev ?t))) = rev (dropWhile is_space (rev ?t))"
    by (rule dropWhile_rev_strip [OF a])
  show ?thesis by (simp add: trim_def b)
qed

lemma join_comma_split: "map (join '','') (map (split (CHR '','')) ls) = ls"
  by (induction ls) (simp_all add: join_split)

lemma parse_rows_not_Nil: "parse_rows csvData \<noteq> []"
  by (simp add: parse_rows_def split_not_Nil)

lemma parse_rows_trim: "parse_rows (trim csvData) = parse_rows csvData"
  by (simp add: parse_rows_def trim_trim)

lemma headers_constructor: "headers (constructor csvData rs) = hd (parse_rows csvData)"
  by (simp add: constructor_def Let_def)

lemma records_constructor: "records (constructor csvData rs) = tl (parse_rows csvData)"
  by (simp add: constructor_def Let_def)

text \<open>The valid text exported from a freshly built processor is the trimmed input.\<close>

lemma valid_text_constructor:
  "fst (generate_split_export (constructor csvData rs)) = trim csvData"
proof -
  have "valid_lines (constructor csvData rs) = map (join '','') (parse_rows csvData)"
    using parse_rows_not_Nil [of csvData]
    by (cases "parse_rows csvData")
       (simp_all add: valid_lines_def headers_constructor records_constructor)
  also have "\<dots> = split nl (trim csvData)"
    by (simp add: parse_rows_def join_comma_split del: map_map)
  finally show ?thesis
    by (simp add: generate_split_export_def join_split)
qed

subsection \<open>\<open>parseFloat\<close>: \<open>NaN\<close> and rounding\<close>

lemma not_digit_dot [simp]: "\<not> is_digit (CHR ''.'')"
  by (simp add: is_digit_def)

lemma to_binary64_not_NaN [simp]: "to_binary64 q \<noteq> NaN"
  by (simp add: to_binary64_def Let_def)

lemma unsigned_literal_NaN: "(unsigned_literal s = NaN) = (\<not> starts_unsigned s)"
proof (cases "take 8 s = ''Infinity''")
  case True
  then show ?thesis by (simp add: unsigned_literal_def starts_unsigned_def)
next
  case inf: False
  show ?thesis
  proof (cases s)
    case Nil
    then show ?thesis by (simp add: unsigned_literal_def starts_unsigned_def)
  next
    case (Cons c cs)
    show ?thesis
    proof (cases "is_digit c")
      case True
      with inf Cons show ?thesis
        by (simp add: unsigned_literal_def starts_unsigned_def Let_def)
    next
      case False
      with inf Cons show ?thesis
        by (cases cs) (auto simp add: unsigned_literal_def starts_unsigned_def Let_def)
    qed
  qed
qed

lemma negate_NaN [simp]: "(negate n = NaN) = (n = NaN)"
  by (cases n) (simp_all add: negate_def)

lemma parseFloat_NaN: "isNaN (parseFloat v) = (\<not> numeric_prefix v)"
proof (cases "trimStart v")
  case Nil
  then show ?thesis
    by (simp add: isNaN_def parseFloat_def numeric_prefix_def unsigned_literal_NaN
        starts_unsigned_def)
next
  case (Cons c cs)
  then show ?thesis
    by (simp add: isNaN_def parseFloat_def numeric_prefix_def unsigned_literal_NaN Let_def)
qed

text \<open>Rounding at work: an integer above \<open>2 ^ 53\<close> that is not a binary64 value, a decimal
  fraction, a numeric prefix with an exponent, and a tie that goes to the even neighbour.\<close>

lemma parseFloat_rounds:
  "parseFloat ''9007199254740993'' = Finite 9007199254740992
   \<and> parseFloat ''9007199254740995'' = Finite 9007199254740996
   \<and> parseFloat ''0.1'' = Finite (3602879701896397 / 36028797018963968)
   \<and> parseFloat ''-1.5e2x'' = Finite (- 150)"
  by code_simp

text \<open>Overflow: \<open>1e400\<close> is \<open>Infinity\<close>.\<close>

lemma parseFloat_overflow: "parseFloat ''1e400'' = PosInfinity"
  by code_simp

subsection \<open>\<open>indexOf\<close> and the row update\<close>

lemma indexOf_None: "(indexOf xs x = None) = (x \<notin> set xs)"
  by (induction xs) (auto split: option.splits)

lemma indexOf_Some: "indexOf xs x = Some i \<Longrightarrow> i < length xs \<and> xs ! i = x \<and> x \<notin> set (take i xs)"
proof (induction xs arbitrary: i)
  case Nil
  then show ?case by simp
next
  case (Cons y ys)
  then show ?case
    by (cases i) (auto split: if_splits option.splits)
qed

lemma length_fix_row [simp]: "length (fix_row c f r row) = length row"
  by (simp add: fix_row_def)

lemma nth_fix_row:
  "j < length row \<Longrightarrow>
   fix_row c f r row ! j = (if c = j \<and> row ! j = f then r else row ! j)"
  by (auto simp add: fix_row_def nth_list_update)

text \<open>What \<open>apply_bulk_fix\<close> does to the table, however the call completes: the headers,
  the number of records and the length of every record are kept; the cell at row \<open>i\<close> and
  index \<open>j\<close> becomes \<open>replaceVal\<close> exactly when \<open>j\<close> is \<open>headers.indexOf(colName)\<close> and the
  cell equals \<open>findVal\<close>; with a name that is not a header the processor is unchanged. The
  call completes as \<open>count_total_errors\<close> does on the resulting processor.\<close>

lemma apply_bulk_fix_cells:
  "headers (fst (apply_bulk_fix p col findVal replaceVal)) = headers p
   \<and> length (records (fst (apply_bulk_fix p col findVal replaceVal))) = length (records p)
   \<and> (\<forall>i < length (records p).
        length (records (fst (apply_bulk_fix p col findVal replaceVal)) ! i)
          = length (records p ! i)
        \<and> (\<forall>j < length (records p ! i).
             records (fst (apply_bulk_fix p col findVal replaceVal)) ! i ! j
               = (if indexOf (headers p) col = Some j \<and> records p ! i ! j = findVal
                  then replaceVal else records p ! i ! j)))
   \<and> (col \<notin> set (headers p) \<longrightarrow> fst (apply_bulk_fix p col findVal replaceVal) = p)
   \<and> snd (apply_bulk_fix p col findVal replaceVal)
       = count_total_errors (fst (apply_bulk_fix p col findVal replaceVal))"
proof (cases "indexOf (headers p) col")
  case None
  then show ?thesis
    by (simp add: apply_bulk_fix_def)
next
  case (Some c)
  then have "col \<in> set (headers p)"
    using indexOf_None [of "headers p" col] by auto
  with Some show ?thesis
    by (simp add: apply_bulk_fix_def Let_def nth_fix_row)
qed

subsection \<open>The error summary\<close>

lemma obj_get_obj_set: "obj_get (obj_set ob k v) k' = (if k' = k then Some v else obj_get ob k')"
  by (induction ob) (auto simp add: obj_get_def)

lemma fold_invariant:
  assumes "\<And>x s. P s \<Longrightarrow> P (f x s)" and "P s"
  shows "P (fold f xs s)"
  using assms(2) by (induction xs arbitrary: s) (simp_all add: assms(1))

lemma for_each_invariant:
  assumes "\<And>x s s'. P s \<Longrightarrow> f x s = Return s' \<Longrightarrow> P s'"
    and "for_each f xs s = Return s'" and "P s"
  shows "P s'"
  using assms(2,3)
proof (induction xs arbitrary: s)
  case Nil
  then show ?case by simp
next
  case (Cons x xs)
  then show ?case
    by (cases "f x s") (auto intro: assms(1))
qed

text \<open>Every rule of a chain is evaluated: the errors recorded for a cell are those of the
  rules the value violates, one for each, in the order of the chain.\<close>

lemma check_rules_map_filter:
  "check_rules colName val rs s
     = fold (\<lambda>errType. record_error colName errType val)
         (List.map_filter (\<lambda>rule. check_rule rule val) rs) s"
  unfolding check_rules_def
  by (induction rs arbitrary: s) (auto simp add: List.map_filter_simps split: option.splits)

lemma total_errors_record_error:
  "total_errors (record_error colName errType val s) = Suc (total_errors s)"
  by (simp add: record_error_def)

lemma check_rules_counts_every_rule:
  "total_errors (check_rules colName val rs s)
     = total_errors s + length (filter (\<lambda>rule. check_rule rule val \<noteq> None) rs)"
  unfolding check_rules_def
  by (induction rs arbitrary: s) (auto simp add: total_errors_record_error)

lemma sum_obj_set:
  fixes ob :: "nat obj"
  shows "sum_list (map snd (obj_set ob k v)) + (case obj_get ob k of None \<Rightarrow> 0 | Some c \<Rightarrow> c)
           = sum_list (map snd ob) + v"
  by (induction ob) (auto simp add: obj_get_def)

lemma stats_sum_obj_set:
  "stats_sum (obj_set st k ob)
     + (case obj_get st k of None \<Rightarrow> 0 | Some old \<Rightarrow> sum_list (map snd old))
   = stats_sum st + sum_list (map snd ob)"
  by (induction st) (auto simp add: obj_get_def stats_sum_def)

lemma stats_sum_count_error:
  assumes "colName \<notin> set object_prototype_names"
  shows "stats_sum (count_error colName errType st) = Suc (stats_sum st)"
proof (cases "obj_get st colName")
  case None
  then have "count_error colName errType st = obj_set st colName [(errType, 1)]"
    using assms by (simp add: count_error_def obj_lookup_def obj_get_def)
  then show ?thesis
    using stats_sum_obj_set [of st colName "[(errType, 1)]"] None by simp
next
  case (Some ob)
  let ?ob' = "obj_set ob errType ((case obj_get ob errType of None \<Rightarrow> 0 | Some c \<Rightarrow> c) + 1)"
  have a: "sum_list (map snd ?ob') = Suc (sum_list (map snd ob))"
    using sum_obj_set [of ob errType "(case obj_get ob errType of None \<Rightarrow> 0 | Some c \<Rightarrow> c) + 1"]
    by simp
  have "count_error colName errType st = obj_set st colName ?ob'"
    using Some by (simp add: count_error_def obj_lookup_def obj_get_def)
  then show ?thesis
    using stats_sum_obj_set [of st colName ?ob'] Some a by simp
qed

text \<open>When no column with rules bears an inherited name, \<open>total_errors\<close> is the sum of all
  counts in \<open>stats\<close>. (A violation in a column named \<open>toString\<close>, say, adds to the total
  and leaves \<open>stats\<close> as it is.)\<close>

lemma total_errors_is_stats_sum:
  assumes "get_error_summary p = Return s"
    and "\<forall>c \<in> fst ` set (ruleMap p). c \<notin> set object_prototype_names"
  shows "stats_sum (stats s) = total_errors s"
proof -
  let ?P = "\<lambda>s. stats_sum (stats s) = total_errors s"
  have rules: "?P (check_rules c v rs s)"
    if "?P s" and "c \<notin> set object_prototype_names" for c v rs s
    unfolding check_rules_def using that(1)
    by (rule fold_invariant [rotated])
       (simp add: record_error_def stats_sum_count_error that(2) split: option.splits)
  have cell: "?P s'" if "?P s" and "check_cell p cell s = Return s'" for cell s s'
  proof (cases "map_of (ruleMap p) (header_at (headers p) (snd cell))")
    case None
    with that show ?thesis
      by (auto simp add: check_cell_def obj_lookup_def Let_def split: if_splits)
  next
    case (Some rs)
    then have "header_at (headers p) (snd cell) \<in> fst ` set (ruleMap p)"
      by (metis map_of_SomeD fst_conv image_eqI)
    with assms(2) have "header_at (headers p) (snd cell) \<notin> set object_prototype_names"
      by blast
    with that Some rules show ?thesis
      by (auto simp add: check_cell_def obj_lookup_def Let_def)
  qed
  have row: "?P s'" if "?P s" and "check_row p r s = Return s'" for r s s'
    using that(2,1) unfolding check_row_def
    by (rule for_each_invariant [where P = ?P, rotated]) (rule cell)
  have start: "?P \<lparr> stats = [], examples = [], total_errors = 0 \<rparr>"
    by (simp add: stats_sum_def)
  from assms(1) have "for_each (check_row p) (records p)
                        \<lparr> stats = [], examples = [], total_errors = 0 \<rparr> = Return s"
    by (simp add: get_error_summary_def split: if_splits)
  then show ?thesis
    using start by (rule for_each_invariant [where P = ?P, rotated]) (rule row)
qed

text \<open>A stored example that is not the empty string is never replaced: neither by a later
  rule or cell, nor by a later row.\<close>

lemma example_of_record_error:
  assumes "example_of s c e = Some x" and "x \<noteq> []"
  shows "example_of (record_error c' e' v s) c e = Some x"
proof -
  from assms obtain ex where ex: "obj_get (examples s) c = Some ex" "obj_get ex e = Some x"
    by (auto simp add: example_of_def split: option.splits)
  show ?thesis
  proof (cases "c' = c")
    case True
    with ex assms(2) show ?thesis
      by (auto simp add: example_of_def record_error_def keep_example_def obj_lookup_def
          obj_get_def [symmetric] obj_get_obj_set split: option.splits)
  next
    case False
    with ex show ?thesis
      by (auto simp add: example_of_def record_error_def keep_example_def obj_lookup_def
          obj_get_def [symmetric] obj_get_obj_set split: option.splits)
  qed
qed

lemma example_of_check_row:
  assumes "check_row p r s = Return s'" and "example_of s c e = Some x" and "x \<noteq> []"
  shows "example_of s' c e = Some x"
proof -
  let ?P = "\<lambda>s. example_of s c e = Some x"
  have rules: "?P (check_rules c' v rs s)" if "?P s" for c' v rs s
    unfolding check_rules_def using that
    by (rule fold_invariant [rotated])
       (simp add: example_of_record_error assms(3) split: option.splits)
  have cell: "?P s'" if "?P s" and "check_cell p cell s = Return s'" for cell s s'
    using that rules
    by (auto simp add: check_cell_def Let_def split: property.splits)
  show ?thesis
    using assms(1,2) unfolding check_row_def
    by (rule for_each_invariant [where P = ?P, rotated]) (rule cell)
qed

lemma nonempty_example_is_kept:
  assumes "for_each (check_row p) rows s = Return s'"
    and "example_of s c e = Some x" and "x \<noteq> []"
  shows "example_of s' c e = Some x"
  using assms(1,2)
  by (rule for_each_invariant [where P = "\<lambda>s. example_of s c e = Some x", rotated])
     (rule example_of_check_row [OF _ _ assms(3)])

section \<open>The claims\<close>

text \<open>
  C1, as stated, fails. On the table \<open>name,age,email,role\<close> with the rows \<open>(,abc,,x)\<close> and
  \<open>(Bob,24,bob@example.com,user)\<close> under \<open>SAMPLE_RULES\<close>, the column \<open>age\<close> has the single
  entry \<open>Not a Number\<close> (the value \<open>abc\<close> is not empty, so there is no \<open>Required\<close>), and the
  column \<open>email\<close> has the single entry \<open>Invalid Email\<close> (an empty value under an \<open>email\<close>
  rule is an invalid email, not a \<open>Required\<close>).
\<close>

theorem C1_counterexample:
  "stats_entry (get_error_summary (constructor aggregation_table SAMPLE_RULES)) ''age''
     = Some [(''Not a Number'', 1)]
   \<and> stats_entry (get_error_summary (constructor aggregation_table SAMPLE_RULES)) ''email''
     = Some [(''Invalid Email'', 1)]"
  by code_simp

text \<open>
  C1, amended. On that table and those rules the summary is exactly
  \<open>name.Required = 1\<close>, \<open>age.Not a Number = 1\<close>, \<open>email.Invalid Email = 1\<close> and
  \<open>role.Invalid Option = 1\<close>, with the first offending values as examples, and
  \<open>total_errors\<close> is 4, the sum of all counts in \<open>stats\<close>. Every rule of a chain
  contributes on its own: for every column, value, chain and summary so far, the pass
  records one error for each rule of the chain that the value violates, in the order of
  the chain, whatever the other rules of the chain report. So the empty age of the row
  \<open>(Bob, )\<close> is counted twice under the chain of \<open>age\<close>, as \<open>Required\<close> and as
  \<open>Not a Number\<close>.
\<close>

theorem C1_summary:
  "get_error_summary (constructor aggregation_table SAMPLE_RULES)
     = Return
         \<lparr> stats = [(''name'', [(''Required'', 1)]), (''age'', [(''Not a Number'', 1)]),
                    (''email'', [(''Invalid Email'', 1)]), (''role'', [(''Invalid Option'', 1)])],
           examples = [(''name'', [(''Required'', [])]), (''age'', [(''Not a Number'', ''abc'')]),
                       (''email'', [(''Invalid Email'', [])]),
                       (''role'', [(''Invalid Option'', ''x'')])],
           total_errors = 4 \<rparr>
   \<and> map_option (stats_sum \<circ> stats)
         (returned (get_error_summary (constructor aggregation_table SAMPLE_RULES))) = Some 4
   \<and> check_rules colName val rs s
       = fold (\<lambda>errType. record_error colName errType val)
           (List.map_filter (\<lambda>rule. check_rule rule val) rs) s
   \<and> total_errors (check_rules colName val rs s)
       = total_errors s + length (filter (\<lambda>rule. check_rule rule val \<noteq> None) rs)
   \<and> get_error_summary (constructor empty_age_table SAMPLE_RULES)
       = Return
           \<lparr> stats = [(''age'', [(''Required'', 1), (''Not a Number'', 1)])],
             examples = [(''age'', [(''Required'', []), (''Not a Number'', [])])],
             total_errors = 2 \<rparr>"
proof -
  have a: "get_error_summary (constructor aggregation_table SAMPLE_RULES)
     = Return
         \<lparr> stats = [(''name'', [(''Required'', 1)]), (''age'', [(''Not a Number'', 1)]),
                    (''email'', [(''Invalid Email'', 1)]), (''role'', [(''Invalid Option'', 1)])],
           examples = [(''name'', [(''Required'', [])]), (''age'', [(''Not a Number'', ''abc'')]),
                       (''email'', [(''Invalid Email'', [])]),
                       (''role'', [(''Invalid Option'', ''x'')])],
           total_errors = 4 \<rparr>"
    by code_simp
  have b: "map_option (stats_sum \<circ> stats)
         (returned (get_error_summary (constructor aggregation_table SAMPLE_RULES))) = Some 4"
    by code_simp
  have c: "get_error_summary (constructor empty_age_table SAMPLE_RULES)
       = Return
           \<lparr> stats = [(''age'', [(''Required'', 1), (''Not a Number'', 1)])],
             examples = [(''age'', [(''Required'', []), (''Not a Number'', [])])],
             total_errors = 2 \<rparr>"
    by code_simp
  from a b c check_rules_map_filter [of colName val rs s]
    check_rules_counts_every_rule [of colName val rs s]
  show ?thesis by blast
qed

text \<open>
  C2 fails on the code when the first violating value is the empty string. The table has the
  rows \<open>(Bob, )\<close> and \<open>(Eve, abc)\<close> and the column \<open>age\<close> carries a \<open>number\<close> rule. Both rows
  violate it with \<open>Not a Number\<close>; the first value is empty, and the example recorded at the
  end of the pass is \<open>abc\<close>, the value of the second row: the guard
  \<open>!examples[colName][errType]\<close> also holds for a stored empty string.
\<close>

theorem C2_example_overwritten:
  "records (constructor blank_age_table [(''age'', [rule_number None None])])
     = [[''Bob'', []], [''Eve'', ''abc'']]
   \<and> get_error_summary (constructor blank_age_table [(''age'', [rule_number None None])])
     = Return
         \<lparr> stats = [(''age'', [(''Not a Number'', 2)])],
           examples = [(''age'', [(''Not a Number'', ''abc'')])],
           total_errors = 2 \<rparr>"
  by code_simp

text \<open>
  C3. For every input text, exporting the table built from it (the valid text of
  \<open>generate_split_export\<close>, the serialisation this class has: the header line and every row,
  joined by commas and line feeds) and building a table from that text gives the same
  headers and the same records. The constructor splits at every comma and line feed and
  keeps quote characters as they are, so no field of a parsed table holds a delimiter.
\<close>

theorem C3_round_trip:
  "headers (constructor (fst (generate_split_export (constructor text rs))) rs')
     = headers (constructor text rs)
   \<and> records (constructor (fst (generate_split_export (constructor text rs))) rs')
     = records (constructor text rs)"
  by (simp add: headers_constructor records_constructor valid_text_constructor parse_rows_trim)

text \<open>
  C4, as stated, fails: the export does not look at the rules. The row \<open>(Bob, abc)\<close>
  triggers \<open>Not a Number\<close> under a \<open>number\<close> rule on \<open>age\<close>, yet it is written to the valid
  text, and the invalid text is the header line alone.
\<close>

theorem C4_counterexample:
  "get_error_summary (constructor bad_age_table [(''age'', [rule_number None None])])
     = Return
         \<lparr> stats = [(''age'', [(''Not a Number'', 1)])],
           examples = [(''age'', [(''Not a Number'', ''abc'')])],
           total_errors = 1 \<rparr>
   \<and> generate_split_export (constructor bad_age_table [(''age'', [rule_number None None])])
     = (join [nl] [''name,age'', ''Bob,abc''], ''name,age,Error_Reason'')"
  by code_simp

text \<open>
  C4, amended. For every processor, the valid output holds the header line followed by
  every record, in order, whatever the rules say; the invalid output holds the header line
  extended by \<open>Error_Reason\<close> and no record. So every record appears in exactly one output
  (the valid one), and the two row counts without the header lines add up to the number of
  records.
\<close>

theorem C4_all_records_valid:
  "tl (valid_lines p) = map (join '','') (records p)
   \<and> tl (invalid_lines p) = []
   \<and> length (tl (valid_lines p)) + length (tl (invalid_lines p)) = length (records p)
   \<and> generate_split_export p
       = (join [nl] (join '','' (headers p) # map (join '','') (records p)),
          join '','' (headers p) @ '',Error_Reason'')"
  by (simp add: valid_lines_def invalid_lines_def generate_split_export_def)

text \<open>
  C5 fails on the code where it says that no error is raised. The table has the headers
  \<open>toString\<close> and \<open>b\<close> and the row \<open>(1, 2)\<close>, there are no rules, and the fix names the column
  \<open>team\<close>, which is not a header. The table is left as it was, but the call throws a
  \<open>TypeError\<close>: it ends in \<open>count_total_errors\<close>, where \<open>this.ruleMap['toString']\<close> is the
  function every object inherits, which passes the guard \<open>if (!rules) return\<close> and has no
  \<open>forEach\<close>. What the call does to the cells is \<open>apply_bulk_fix_cells\<close> above.
\<close>

theorem C5_throws_on_inherited_header:
  "headers (constructor inherited_header_table []) = [''toString'', ''b'']
   \<and> indexOf (headers (constructor inherited_header_table [])) ''team'' = None
   \<and> get_error_summary (constructor inherited_header_table []) = Throw TypeError
   \<and> apply_bulk_fix (constructor inherited_header_table []) ''team'' ''x'' ''y''
       = (constructor inherited_header_table [], Throw TypeError)"
  by code_simp

text \<open>
  C6, as stated, fails: the constructor has no failure on the text. From the empty text it
  builds a table with the single header \<open>""\<close> and no record, on which the other operations
  run.
\<close>

theorem C6_counterexample:
  "constructor [] []
     = \<lparr> headers = [[]], records = [], rules = [], ruleMap = [], ruleMap_proto = None \<rparr>
   \<and> get_error_summary (constructor [] [])
       = Return \<lparr> stats = [], examples = [], total_errors = 0 \<rparr>
   \<and> generate_split_export (constructor [] []) = ([], '',Error_Reason'')"
  by code_simp

text \<open>
  C6, amended. For every input text the constructor returns a table with at least one
  header; when the text is empty or white space only, the table has the single header
  \<open>""\<close> and no record.
\<close>

theorem C6_empty_input:
  "headers (constructor text rs) \<noteq> []
   \<and> (trim text = [] \<longrightarrow>
        headers (constructor text rs) = [[]] \<and> records (constructor text rs) = [])"
proof -
  have "hd (parse_rows text) \<noteq> []"
    by (cases "split nl (trim text)") (auto simp add: parse_rows_def split_not_Nil)
  then show ?thesis
    by (auto simp add: headers_constructor records_constructor parse_rows_def)
qed

text \<open>An instance of the amended C6 on a text of two spaces.\<close>

theorem C6_empty_input_witness:
  "trim ''  '' = [] \<and> headers (constructor ''  '' []) = [[]] \<and> records (constructor ''  '' []) = []"
proof -
  have h: "trim ''  '' = []" by code_simp
  show ?thesis using h C6_empty_input [of "''  ''" "[]"] by simp
qed

text \<open>
  C7, as stated, fails: the value is not trimmed. A field holding one space is empty
  after trimming, and a \<open>notempty\<close> rule reports nothing for it.
\<close>

theorem C7_counterexample:
  "trim '' '' = [] \<and> check_rule rule_notempty '' '' = None
   \<and> records (constructor blank_name_table [(''name'', [rule_notempty])]) = [['' '', ''5'']]
   \<and> get_error_summary (constructor blank_name_table [(''name'', [rule_notempty])])
        = Return \<lparr> stats = [], examples = [], total_errors = 0 \<rparr>"
  by code_simp

text \<open>
  C7, amended. A rule reports \<open>Required\<close> for a value if and only if it is a \<open>notempty\<close>
  rule and the value is the empty string.
\<close>

theorem C7_required_iff_empty:
  "(check_rule r v = Some ''Required'') = (rule_type r = ''notempty'' \<and> v = [])"
  by (simp add: check_rule_def Let_def)

text \<open>
  C8, as stated, fails. \<open>parseFloat\<close> reads a numeric prefix and ignores the rest, so
  \<open>24abc\<close> passes a \<open>number\<close> rule with the bounds 18 and 100; \<open>Infinity\<close> is a number and
  passes a rule without bounds; and one rule reports one kind at most, so with \<open>min\<close> 100 and
  \<open>max\<close> 18 the value 50 is reported as \<open>Min Value\<close> only.
\<close>

theorem C8_counterexample:
  "check_rule (rule_number (Some 18) (Some 100)) ''24abc'' = None
   \<and> check_rule (rule_number None None) ''Infinity'' = None
   \<and> check_rule (rule_number (Some 100) (Some 18)) ''50'' = Some ''Min Value''"
  by code_simp

text \<open>
  C8, amended. A rule reports \<open>Not a Number\<close> for a value if and only if it is a \<open>number\<close>
  rule and the value, after leading white space and an optional sign, does not start with
  \<open>Infinity\<close>, a digit, or a dot and a digit. It reports \<open>Min Value\<close> if and only if the
  value has such a prefix, \<open>min\<close> is present and the parsed number is below \<open>min\<close>; it reports
  \<open>Max Value\<close> if and only if the value has such a prefix, no \<open>Min Value\<close> is due, \<open>max\<close> is
  present and the parsed number is above \<open>max\<close>. A number equal to a bound is neither below
  nor above it.
\<close>

theorem C8_number_rule:
  "(check_rule r v = Some ''Not a Number'') = (rule_type r = ''number'' \<and> \<not> numeric_prefix v)
   \<and> (check_rule r v = Some ''Min Value'')
       = (rule_type r = ''number'' \<and> numeric_prefix v
          \<and> (\<exists>m. rule_min r = Some m \<and> num_less (parseFloat v) m))
   \<and> (check_rule r v = Some ''Max Value'')
       = (rule_type r = ''number'' \<and> numeric_prefix v
          \<and> \<not> (\<exists>m. rule_min r = Some m \<and> num_less (parseFloat v) m)
          \<and> (\<exists>m. rule_max r = Some m \<and> num_greater (parseFloat v) m))
   \<and> \<not> num_less (Finite q) q \<and> \<not> num_greater (Finite q) q"
proof -
  have nan: "(check_rule r v = Some ''Not a Number'')
               = (rule_type r = ''number'' \<and> \<not> numeric_prefix v)"
    by (simp add: check_rule_def Let_def parseFloat_NaN)
  have mn: "(check_rule r v = Some ''Min Value'')
              = (rule_type r = ''number'' \<and> numeric_prefix v
                 \<and> (\<exists>m. rule_min r = Some m \<and> num_less (parseFloat v) m))"
    by (cases "rule_min r") (simp_all add: check_rule_def Let_def parseFloat_NaN)
  have mx: "(check_rule r v = Some ''Max Value'')
              = (rule_type r = ''number'' \<and> numeric_prefix v
                 \<and> \<not> (\<exists>m. rule_min r = Some m \<and> num_less (parseFloat v) m)
                 \<and> (\<exists>m. rule_max r = Some m \<and> num_greater (parseFloat v) m))"
    by (cases "rule_min r"; cases "rule_max r")
       (simp_all add: check_rule_def Let_def parseFloat_NaN)
  have eq: "\<not> num_less (Finite q) q \<and> \<not> num_greater (Finite q) q"
    by (simp add: num_less_def num_greater_def)
  from nan mn mx eq show ?thesis by blast
qed

text \<open>
  C9, as stated, fails: the test is \<open>/@/.test(val)\<close>. Values with two \<open>@\<close>, or with nothing
  before or after the \<open>@\<close>, pass an \<open>email\<close> rule.
\<close>

theorem C9_counterexample:
  "check_rule rule_email ''a@@b'' = None \<and> check_rule rule_email ''@'' = None
   \<and> check_rule rule_email ''@example.com'' = None \<and> check_rule rule_email ''bob@'' = None"
  by code_simp

text \<open>
  C9, amended. A rule reports \<open>Invalid Email\<close> for a value if and only if it is an \<open>email\<close>
  rule and the value contains no \<open>@\<close>.
\<close>

theorem C9_invalid_email_iff_no_at:
  "(check_rule r v = Some ''Invalid Email'') = (rule_type r = ''email'' \<and> CHR ''@'' \<notin> set v)"
  by (simp add: check_rule_def Let_def)

text \<open>
  C10 fails on the code: the chain in \<open>get_error_summary\<close> has no branch for the type
  \<open>regex\<close>. The column \<open>code\<close> carries the rule \<open>{type: 'regex', pattern: '^[a-z]+$'}\<close> that
  the rule builder creates, the value \<open>123\<close> does not match the pattern, and the summary is
  empty.
\<close>

theorem C10_regex_ignored:
  "check_rule (rule_regex ''^[a-z]+$'') ''123'' = None
   \<and> get_error_summary (constructor code_table [(''code'', [rule_regex ''^[a-z]+$''])])
        = Return \<lparr> stats = [], examples = [], total_errors = 0 \<rparr>"
  by code_simp

end
